theory Spec2Isabelle
  imports Main
begin

section \<open>Python strings and values\<close>

text \<open>
  The agent of \<^verbatim>\<open>src/agents/livekit_interviewer.py\<close> works on Python strings. They are
  modelled as \<^typ>\<open>string\<close>; a \<^typ>\<open>char\<close> stands for a code point below 256.
\<close>

definition is_space :: "char \<Rightarrow> bool" where
  \<comment> \<open>\<^verbatim>\<open>str.isspace\<close> on the code points below 256: TAB, LF, VT, FF, CR, FS, GS, RS, US,
      space, NEL (0x85) and NBSP (0xA0).\<close>
  "is_space c \<longleftrightarrow> c \<in> set [CHR 0x09, CHR 0x0A, CHR 0x0B, CHR 0x0C, CHR 0x0D,
     CHR 0x1C, CHR 0x1D, CHR 0x1E, CHR 0x1F, CHR 0x20, CHR 0x85, CHR 0xA0]"

definition str_strip :: "string \<Rightarrow> string" where
  \<comment> \<open>\<^verbatim>\<open>s.strip()\<close>\<close>
  "str_strip s = rev (dropWhile is_space (rev (dropWhile is_space s)))"

fun str_split :: "char \<Rightarrow> string \<Rightarrow> string list" where
  \<comment> \<open>\<^verbatim>\<open>s.split(sep)\<close> for a separator of one character\<close>
  "str_split sep [] = [[]]"
| "str_split sep (c # cs) =
     (if c = sep then [] # str_split sep cs
      else (case str_split sep cs of
              [] \<Rightarrow> [[c]]
            | p # ps \<Rightarrow> (c # p) # ps))"

fun str_join :: "char \<Rightarrow> string list \<Rightarrow> string" where
  \<comment> \<open>\<^verbatim>\<open>sep.join(ps)\<close> for a separator of one character\<close>
  "str_join sep [] = []"
| "str_join sep [p] = p"
| "str_join sep (p # q # ps) = p @ sep # str_join sep (q # ps)"

fun rstrip_char :: "char \<Rightarrow> string \<Rightarrow> string" where
  \<comment> \<open>\<^verbatim>\<open>s.rstrip(c)\<close> for one character\<close>
  "rstrip_char c s = rev (dropWhile (\<lambda>x. x = c) (rev s))"

definition digit_char :: "nat \<Rightarrow> char" where
  "digit_char d = ''0123456789'' ! d"

fun str_nat :: "nat \<Rightarrow> string" where
  "str_nat n = (if n < 10 then [digit_char n] else str_nat (n div 10) @ [digit_char (n mod 10)])"

declare str_nat.simps [simp del]


definition str_int :: "int \<Rightarrow> string" where
  \<comment> \<open>\<^verbatim>\<open>str(n)\<close> for an integer\<close>
  "str_int n = (if n < 0 then CHR ''-'' # str_nat (nat (- n)) else str_nat (nat n))"

definition tech_values :: "string \<Rightarrow> string list" where
  \<comment> \<open>\<^verbatim>\<open>[item.strip() for item in tech_stack.split(",") if item.strip()]\<close>\<close>
  "tech_values tech_stack =
     map str_strip (filter (\<lambda>item. str_strip item \<noteq> []) (str_split CHR '','' tech_stack))"

definition trimmed_of :: "string \<Rightarrow> string \<Rightarrow> bool" where
  \<comment> \<open>\<open>t\<close> is \<open>p\<close> without its leading and trailing whitespace\<close>
  "trimmed_of p t \<longleftrightarrow>
     (\<exists>l r. p = l @ t @ r \<and> (\<forall>c\<in>set l. is_space c) \<and> (\<forall>c\<in>set r. is_space c)
        \<and> (t \<noteq> [] \<longrightarrow> \<not> is_space (hd t) \<and> \<not> is_space (last t)))"

datatype pyval =
    PNone
  | PBool bool
  | PInt int
  | PStr string
  | PList "pyval list"
  | PDict "(string \<times> pyval) list"

text \<open>
  \<^typ>\<open>pyval\<close> holds the Python values the agent builds and receives: request payloads,
  tool results and the results of \<^verbatim>\<open>json.loads\<close>. A \<^verbatim>\<open>dict\<close> is the list of its items
  in insertion order.
\<close>

definition truthy :: "string option \<Rightarrow> bool" where
  \<comment> \<open>Python's truth test on an \<^verbatim>\<open>Optional[str]\<close>: \<^verbatim>\<open>None\<close> and \<^verbatim>\<open>""\<close> are false.\<close>
  "truthy x = (case x of None \<Rightarrow> False | Some s \<Rightarrow> s \<noteq> [])"

datatype error =
    ValueError string
  | RuntimeError string
  | TimeoutError
  | JSONDecodeError
  | LibraryValueError
  | RecursionError
  | StoreError

text \<open>
  The exceptions that leave a tool. \<open>ValueError\<close> and \<open>RuntimeError\<close> with their messages
  are the ones the agent raises itself. The others are raised below it and not caught by
  it: \<open>TimeoutError\<close> by the transport, \<open>LibraryValueError\<close> is a \<^verbatim>\<open>ValueError\<close> of the
  Firestore client or of the Python runtime (its message is not modelled),
  \<open>StoreError\<close> the exception of a write that the store does not commit.
  \<^verbatim>\<open>json.loads\<close> raises \<open>JSONDecodeError\<close> on a text that is not JSON, and on some texts
  a plain \<^verbatim>\<open>ValueError\<close> (an integer beyond the digit limit) or a \<open>RecursionError\<close>.
  The failures of the spec's taxonomy are the following.
\<close>

definition IdentityMissing :: error where
  "IdentityMissing = ValueError ''Missing user identity in room metadata''"

definition NoActiveInterview :: error where
  "NoActiveInterview = ValueError ''Interview ID missing; nothing to save''"

definition GenerationRejected :: "int \<Rightarrow> string \<Rightarrow> error" where
  "GenerationRejected status body =
     RuntimeError (''Interview generation failed ('' @ str_int status @ ''): '' @ body)"

definition GenerationUnreachable :: error where
  "GenerationUnreachable = RuntimeError ''Failed to call /api/agent/generate''"

section \<open>Session state and the agent\<close>

record SessionState =
  mode :: string
  interview_id :: "string option"
  user_id :: "string option"
  metadata_complete :: bool
  questions_generated :: bool
  current_question_index :: int
  question_list :: "string list"

definition SessionState_new :: "string \<Rightarrow> SessionState" where
  \<comment> \<open>\<^verbatim>\<open>SessionState(mode=m)\<close>: the other fields take the dataclass defaults.\<close>
  "SessionState_new m =
     \<lparr>mode = m, interview_id = None, user_id = None, metadata_complete = False,
      questions_generated = False, current_question_index = 0, question_list = []\<rparr>"

text \<open>
  The agent owns the session state and the room metadata. Its effects on the voice
  session are recorded beside them: the number of \<^verbatim>\<open>session.generate_reply()\<close> calls, the
  texts passed to \<^verbatim>\<open>session.say\<close>, whether \<^verbatim>\<open>session.aclose()\<close> was called, and the log
  lines (level and message). The room metadata is a \<^verbatim>\<open>Dict[str, Any]\<close>; the agent reads the
  keys \<^verbatim>\<open>userId\<close>, \<^verbatim>\<open>interviewId\<close> and \<^verbatim>\<open>mode\<close> into fields declared \<^verbatim>\<open>str\<close> or
  \<^verbatim>\<open>Optional[str]\<close>, so it is modelled with string values; a key bound to \<^verbatim>\<open>null\<close> reads as
  an absent key.
\<close>

record Agent =
  state :: SessionState
  room_metadata :: "string \<rightharpoonup> string"
  replies :: nat
  said :: "string list"
  closed :: bool
  log :: "(string \<times> string) list"

definition InterviewAgent :: "SessionState \<Rightarrow> (string \<rightharpoonup> string) \<Rightarrow> Agent" where
  \<comment> \<open>\<^verbatim>\<open>InterviewAgent.__init__\<close>, on a session that has not spoken yet\<close>
  "InterviewAgent session_state metadata =
     \<lparr>state = session_state, room_metadata = metadata, replies = 0, said = [],
      closed = False, log = []\<rparr>"

definition on_enter :: "Agent \<Rightarrow> Agent" where
  "on_enter a =
     (let metadata = room_metadata a;
          s = (state a)\<lparr>user_id := metadata ''userId'',
                        interview_id := metadata ''interviewId'',
                        mode := (case metadata ''mode'' of Some m \<Rightarrow> m | None \<Rightarrow> mode (state a))\<rparr>;
          a1 = a\<lparr>state := s\<rparr>
      in if mode s = ''conduct'' \<and> \<not> truthy (interview_id s)
         then a1\<lparr>log := log a1 @
                [(''ERROR'', ''Missing interview id in room metadata; ending session'')]\<rparr>
         else a1\<lparr>replies := replies a1 + 1\<rparr>)"

section \<open>The document store\<close>

text \<open>
  Firestore documents are maps from field names to values, kept under their paths: the
  interview \<open>i\<close> under \<^verbatim>\<open>interviews/i\<close>, its answer \<open>k\<close> under
  \<^verbatim>\<open>interviews/i/answers/k\<close>. \<^verbatim>\<open>SERVER_TIMESTAMP\<close> is resolved by the store to its time at
  the write, here the argument \<open>now\<close> of a write. A write goes through the Firestore
  client, which the source calls and does not contain; it is modelled in what the tools
  depend on:
  \<^item> \<^verbatim>\<open>collection.document(id)\<close> joins the path of the collection and \<open>id\<close> with
    \<^verbatim>\<open>/\<close> and splits the result at every \<^verbatim>\<open>/\<close>, so that an \<open>id\<close> with slashes gives
    several segments; it raises a \<^verbatim>\<open>ValueError\<close> when the number of segments is odd, and
    the \<^verbatim>\<open>id\<close> of the reference is the last segment;
  \<^item> \<^verbatim>\<open>doc_ref.set\<close> raises a \<^verbatim>\<open>ValueError\<close> for an integer outside 64 bits, before it
    sends anything;
  \<^item> the store commits the write or refuses it, and then \<^verbatim>\<open>set\<close> raises; \<open>accepts\<close>
    says which, for each path and content.
\<close>

datatype fval =
    FStr string
  | FInt int
  | FBool bool
  | FStrs "string list"
  | FTimestamp nat

type_synonym doc = "string \<rightharpoonup> fval"

record Store =
  docs :: "string list \<rightharpoonup> doc"
  accepts :: "string list \<Rightarrow> doc \<Rightarrow> bool"

definition interviews :: "Store \<Rightarrow> (string \<rightharpoonup> doc)" where
  \<comment> \<open>the interview records by their identifier\<close>
  "interviews db i = docs db [''interviews'', i]"

definition document :: "string list \<Rightarrow> string \<Rightarrow> error + string list" where
  \<comment> \<open>\<^verbatim>\<open>collection.document(document_id)\<close>, for a collection whose path segments have no
      \<^verbatim>\<open>/\<close>: the path of the reference, or the \<^verbatim>\<open>ValueError\<close>\<close>
  "document collection_path document_id =
     (let path = collection_path @ str_split CHR ''/'' document_id
      in if even (length path) then Inr path else Inl LibraryValueError)"

definition int64 :: "int \<Rightarrow> bool" where
  "int64 n \<longleftrightarrow> - 9223372036854775808 \<le> n \<and> n \<le> 9223372036854775807"

fun encodable :: "fval \<Rightarrow> bool" where
  "encodable (FInt n) = int64 n"
| "encodable _ = True"

definition set_merge :: "doc option \<Rightarrow> doc \<Rightarrow> doc" where
  \<comment> \<open>the content that \<^verbatim>\<open>set(payload, merge=True)\<close> leaves, from the present content\<close>
  "set_merge old payload = (case old of None \<Rightarrow> payload | Some d \<Rightarrow> d ++ payload)"

definition doc_set :: "Store \<Rightarrow> string list \<Rightarrow> (string \<times> fval) list \<Rightarrow> bool \<Rightarrow> error + Store" where
  \<comment> \<open>\<^verbatim>\<open>doc_ref.set(payload, merge=merge)\<close> on the reference with this path\<close>
  "doc_set db path payload merge =
     (if \<not> list_all (\<lambda>(k, v). encodable v) payload then Inl LibraryValueError
      else if \<not> accepts db path (map_of payload) then Inl StoreError
      else Inr (db\<lparr>docs := (docs db)(path \<mapsto>
                  (if merge then set_merge (docs db path) (map_of payload)
                   else map_of payload))\<rparr>))"

definition interview_items ::
  "string \<Rightarrow> string \<Rightarrow> string \<Rightarrow> string list \<Rightarrow> int \<Rightarrow> string \<Rightarrow> nat \<Rightarrow> (string \<times> fval) list" where
  "interview_items role level interview_type tech question_count uid now =
     [(''role'', FStr role),
      (''level'', FStr level),
      (''type'', FStr interview_type),
      (''techstack'', FStrs tech),
      (''questionCount'', FInt question_count),
      (''userId'', FStr uid),
      (''finalized'', FBool False),
      (''createdAt'', FTimestamp now)]"

definition interview_payload ::
  "string \<Rightarrow> string \<Rightarrow> string \<Rightarrow> string list \<Rightarrow> int \<Rightarrow> string \<Rightarrow> nat \<Rightarrow> doc" where
  "interview_payload role level interview_type tech question_count uid now =
     map_of (interview_items role level interview_type tech question_count uid now)"

definition answer_items :: "string \<Rightarrow> string \<Rightarrow> int \<Rightarrow> nat \<Rightarrow> (string \<times> fval) list" where
  "answer_items question answer sequence now =
     [(''question'', FStr question),
      (''answer'', FStr answer),
      (''sequence'', FInt sequence),
      (''createdAt'', FTimestamp now)]"

definition answer_payload :: "string \<Rightarrow> string \<Rightarrow> int \<Rightarrow> nat \<Rightarrow> doc" where
  "answer_payload question answer sequence now =
     map_of (answer_items question answer sequence now)"

section \<open>The tools\<close>

text \<open>
  A tool takes the agent and the store and returns its result (\<open>Inl\<close> the exception it
  raises) with the agent and the store as it leaves them. \<open>auto_id\<close> is the identifier
  the store client generates for \<^verbatim>\<open>document()\<close> without an argument.
\<close>

definition doc_ref :: "Agent \<Rightarrow> string \<Rightarrow> error + string list" where
  \<comment> \<open>the \<^verbatim>\<open>doc_ref\<close> of \<^verbatim>\<open>store_user_details\<close>: on the session's interview id if it has
      one, else on a generated id\<close>
  "doc_ref a auto_id =
     document [''interviews'']
       (case interview_id (state a) of
          Some i \<Rightarrow> if i \<noteq> [] then i else auto_id
        | None \<Rightarrow> auto_id)"

definition written_fields :: "string set" where
  \<comment> \<open>the keys of the payload that \<^verbatim>\<open>store_user_details\<close> writes\<close>
  "written_fields = {''role'', ''level'', ''type'', ''techstack'', ''questionCount'',
     ''userId'', ''finalized'', ''createdAt''}"

definition store_user_details ::
  "string \<Rightarrow> nat \<Rightarrow> Agent \<times> Store \<Rightarrow> string \<Rightarrow> string \<Rightarrow> string \<Rightarrow> string \<Rightarrow> int
     \<Rightarrow> (error + pyval) \<times> Agent \<times> Store" where
  "store_user_details auto_id now w role level tech_stack interview_type question_count =
     (case w of (a, db) \<Rightarrow>
        if \<not> truthy (user_id (state a))
        then (Inl (ValueError ''Missing user identity in room metadata''), a, db)
        else
          case doc_ref a auto_id of
            Inl e \<Rightarrow> (Inl e, a, db)
          | Inr path \<Rightarrow>
              let uid = (case user_id (state a) of Some u \<Rightarrow> u | None \<Rightarrow> []);
                  payload = interview_items role level interview_type (tech_values tech_stack)
                              question_count uid now
              in case doc_set db path payload True of
                   Inl e \<Rightarrow> (Inl e, a, db)
                 | Inr db1 \<Rightarrow>
                     let doc_id = last path;
                         a1 = a\<lparr>state := (state a)\<lparr>interview_id := Some doc_id,
                                                   metadata_complete := True\<rparr>,
                                log := log a @
                                  [(''INFO'', ''Stored interview metadata '' @ doc_id)]\<rparr>
                     in (Inr (PDict [(''interviewId'', PStr doc_id)]), a1, db1))"

datatype http_result =
    Response int string
  | ClientError
  | Timeout
  | OtherError error

text \<open>
  What the outbound call meets: a response with its status and body, an
  \<^verbatim>\<open>aiohttp.ClientError\<close> raised by the transport, the expiry of the total timeout, which
  aiohttp raises as \<^verbatim>\<open>asyncio.TimeoutError\<close>, an exception outside the \<^verbatim>\<open>ClientError\<close>
  hierarchy, or any other exception raised while the request is made. The environment of
  the call gives the process's environment variables, the transport (endpoint, JSON body
  and total timeout in seconds) and \<^verbatim>\<open>json.loads\<close> (\<open>Inl\<close> the exception it raises).
\<close>

record Env =
  getenv :: "string \<rightharpoonup> string"
  http_post :: "string \<Rightarrow> (string \<times> pyval) list \<Rightarrow> nat \<Rightarrow> http_result"
  json_loads :: "string \<Rightarrow> error + pyval"

definition base_url :: "Env \<Rightarrow> string" where
  "base_url env =
     (if truthy (getenv env ''NEXT_PUBLIC_BASE_URL'') then the (getenv env ''NEXT_PUBLIC_BASE_URL'')
      else if truthy (getenv env ''APP_BASE_URL'') then the (getenv env ''APP_BASE_URL'')
      else if truthy (getenv env ''BASE_URL'') then the (getenv env ''BASE_URL'')
      else ''http://localhost:3000'')"

definition final_message :: string where
  "final_message =
     ''Great! I have generated your interview. You will now be redirected to begin.''"

definition generation_endpoint :: "Env \<Rightarrow> string" where
  \<comment> \<open>\<^verbatim>\<open>f"{base_url.rstrip('/')}/api/agent/generate"\<close>\<close>
  "generation_endpoint env = rstrip_char CHR ''/'' (base_url env) @ ''/api/agent/generate''"

definition resolved_userid :: "Agent \<Rightarrow> string \<Rightarrow> string" where
  \<comment> \<open>\<^verbatim>\<open>userid or (self.state.user_id or "")\<close>\<close>
  "resolved_userid a userid =
     (if userid \<noteq> [] then userid
      else if truthy (user_id (state a)) then the (user_id (state a)) else [])"

definition generation_payload ::
  "Agent \<Rightarrow> string \<Rightarrow> string \<Rightarrow> string \<Rightarrow> string \<Rightarrow> int \<Rightarrow> string \<Rightarrow> (string \<times> pyval) list" where
  "generation_payload a type role level techstack amount userid =
     [(''type'', PStr type),
      (''role'', PStr role),
      (''level'', PStr level),
      (''techstack'', PStr techstack),
      (''amount'', PInt amount),
      (''userid'', PStr (resolved_userid a userid))]"

definition parsed :: "Env \<Rightarrow> string \<Rightarrow> bool" where
  \<comment> \<open>the body is empty, or \<^verbatim>\<open>json.loads\<close> returns on it or raises \<^verbatim>\<open>JSONDecodeError\<close>\<close>
  "parsed env body \<longleftrightarrow>
     body = [] \<or> (case json_loads env body of
                    Inr v \<Rightarrow> True
                  | Inl JSONDecodeError \<Rightarrow> True
                  | Inl e \<Rightarrow> False)"

definition request_question_generation ::
  "Env \<Rightarrow> Agent \<Rightarrow> string \<Rightarrow> string \<Rightarrow> string \<Rightarrow> string \<Rightarrow> int \<Rightarrow> string
     \<Rightarrow> (error + pyval) \<times> Agent" where
  "request_question_generation env a type role level techstack amount userid =
     (let endpoint = generation_endpoint env;
          payload = generation_payload a type role level techstack amount userid;
          a1 = a\<lparr>log := log a @ [(''INFO'', ''Triggering interview generation via '' @ endpoint)]\<rparr>;
          accept = (\<lambda>response_payload.
             (Inr (PDict [(''status'', PStr ''triggered''), (''response'', response_payload)]),
              a1\<lparr>state := (state a1)\<lparr>questions_generated := True, question_list := []\<rparr>,
                 said := said a1 @ [final_message],
                 closed := True,
                 log := log a1 @
                   [(''INFO'', ''Interview generation triggered for user ''
                       @ resolved_userid a userid)]\<rparr>))
      in case http_post env endpoint payload 30 of
           ClientError \<Rightarrow> (Inl (RuntimeError ''Failed to call /api/agent/generate''), a1)
         | Timeout \<Rightarrow> (Inl TimeoutError, a1)
         | OtherError e \<Rightarrow> (Inl e, a1)
         | Response status body \<Rightarrow>
             if status \<ge> 400
             then (Inl (RuntimeError
                     (''Interview generation failed ('' @ str_int status @ ''): '' @ body)), a1)
             else if body = [] then accept (PDict [(''success'', PBool True)])
             else (case json_loads env body of
                     Inr v \<Rightarrow> accept v
                   | Inl JSONDecodeError \<Rightarrow> accept (PDict [(''raw'', PStr body)])
                   | Inl e \<Rightarrow> (Inl e, a1)))"

definition save_answer ::
  "nat \<Rightarrow> Agent \<times> Store \<Rightarrow> string \<Rightarrow> string \<Rightarrow> int \<Rightarrow> (error + pyval) \<times> Agent \<times> Store" where
  "save_answer now w question answer sequence =
     (case w of (a, db) \<Rightarrow>
        if \<not> truthy (interview_id (state a))
        then (Inl (ValueError ''Interview ID missing; nothing to save''), a, db)
        else
          let iid = the (interview_id (state a))
          in case document [''interviews''] iid of
               Inl e \<Rightarrow> (Inl e, a, db)
             | Inr interview_path \<Rightarrow>
                 (case document (interview_path @ [''answers'']) (str_int sequence) of
                    Inl e \<Rightarrow> (Inl e, a, db)
                  | Inr path \<Rightarrow>
                      (case doc_set db path (answer_items question answer sequence now) False of
                         Inl e \<Rightarrow> (Inl e, a, db)
                       | Inr db1 \<Rightarrow>
                           (Inr (PDict [(''status'', PStr ''stored'')]),
                            a\<lparr>log := log a @
                                [(''INFO'', ''Saved answer '' @ str_int sequence
                                    @ '' for interview '' @ iid)]\<rparr>,
                            db1))))"

definition stored :: "Agent \<Rightarrow> string list \<Rightarrow> Agent" where
  \<comment> \<open>the agent as a \<^verbatim>\<open>store_user_details\<close> call that wrote under the path \<open>p\<close> leaves it\<close>
  "stored a p = a\<lparr>state := (state a)\<lparr>interview_id := Some (last p), metadata_complete := True\<rparr>,
                  log := log a @ [(''INFO'', ''Stored interview metadata '' @ last p)]\<rparr>"

definition answer_path :: "string \<Rightarrow> int \<Rightarrow> string list" where
  \<comment> \<open>the path of the answer with this sequence number under the interview \<open>i\<close>\<close>
  "answer_path i sequence = ''interviews'' # str_split CHR ''/'' i @ [''answers'', str_int sequence]"

definition answered :: "Agent \<Rightarrow> string \<Rightarrow> int \<Rightarrow> Agent" where
  \<comment> \<open>the agent as a \<^verbatim>\<open>save_answer\<close> call that wrote leaves it\<close>
  "answered a i sequence =
     a\<lparr>log := log a @
        [(''INFO'', ''Saved answer '' @ str_int sequence @ '' for interview '' @ i)]\<rparr>"

text \<open>
  The reasoning driver calls the tools one at a time. A call names the tool, its
  arguments and what the store or the network answers to that call. An exception goes to
  the driver and the session goes on with the state the call left. No tool looks at
  whether the session is closed, so \<open>run\<close> takes every sequence of calls, those that a
  driver would stop at the closing of the session among them.
\<close>

datatype tool_call =
    StoreUserDetails string nat string string string string int
  | RequestQuestionGeneration Env string string string string int string
  | SaveAnswer nat string string int

fun call_tool :: "tool_call \<Rightarrow> Agent \<times> Store \<Rightarrow> (error + pyval) \<times> Agent \<times> Store" where
  "call_tool (StoreUserDetails auto_id now role level tech_stack interview_type question_count) w =
     store_user_details auto_id now w role level tech_stack interview_type question_count"
| "call_tool (RequestQuestionGeneration env type role level techstack amount userid) w =
     (case request_question_generation env (fst w) type role level techstack amount userid of
        (r, a) \<Rightarrow> (r, a, snd w))"
| "call_tool (SaveAnswer now question answer sequence) w =
     save_answer now w question answer sequence"

fun run :: "tool_call list \<Rightarrow> Agent \<times> Store \<Rightarrow> Agent \<times> Store" where
  "run [] w = w"
| "run (c # cs) w = run cs (snd (call_tool c w))"

definition setup_done :: "Agent \<times> Store \<Rightarrow> bool" where
  \<comment> \<open>what a successful \<^verbatim>\<open>store_user_details\<close> leaves\<close>
  "setup_done w \<longleftrightarrow>
     metadata_complete (state (fst w)) \<and> truthy (interview_id (state (fst w)))"

fun generation_after_setup :: "tool_call list \<Rightarrow> Agent \<times> Store \<Rightarrow> bool" where
  \<comment> \<open>every \<^verbatim>\<open>request_question_generation\<close> of the sequence is called once the setup is stored\<close>
  "generation_after_setup [] w = True"
| "generation_after_setup (c # cs) w =
     ((case c of RequestQuestionGeneration env type role level techstack amount userid \<Rightarrow>
                   setup_done w
               | _ \<Rightarrow> True)
      \<and> generation_after_setup cs (snd (call_tool c w)))"

definition session_invariant :: "Agent \<times> Store \<Rightarrow> bool" where
  \<comment> \<open>questions are generated only once the setup is stored, and a stored setup left an
      interview id of one path segment\<close>
  "session_invariant w \<longleftrightarrow>
     (questions_generated (state (fst w)) \<longrightarrow> setup_done w)
     \<and> (metadata_complete (state (fst w)) \<longrightarrow>
          (\<forall>i. interview_id (state (fst w)) = Some i \<longrightarrow> CHR ''/'' \<notin> set i))"

section \<open>The metadata resolver\<close>

text \<open>
  The room that \<^verbatim>\<open>entrypoint\<close> passes to \<^verbatim>\<open>_session_metadata\<close> is the room of the job
  context, an \<^verbatim>\<open>rtc.Room\<close> of the LiveKit SDK. It has the attribute \<^verbatim>\<open>metadata\<close>, a
  string, and keeps the participants of the room in the attribute
  \<^verbatim>\<open>remote_participants\<close>, by their identity; it has no attribute \<^verbatim>\<open>participants\<close>.
\<close>

record Participant =
  participant_metadata :: string

record Room =
  metadata :: string
  remote_participants :: "(string \<times> Participant) list"

definition getattr_participants :: "Room \<Rightarrow> Participant list" where
  \<comment> \<open>\<^verbatim>\<open>getattr(room, "participants", []) or []\<close>: the room has no such attribute, and the
      default is taken\<close>
  "getattr_participants room = []"

definition sources :: "Room \<Rightarrow> string list" where
  \<comment> \<open>the first two blocks of \<^verbatim>\<open>_session_metadata\<close>\<close>
  "sources room =
     (if metadata room \<noteq> [] then [metadata room] else []) @
     concat (map (\<lambda>participant.
                    if participant_metadata participant \<noteq> []
                    then [participant_metadata participant] else [])
                 (getattr_participants room))"

fun first_object ::
  "(string \<Rightarrow> error + pyval) \<Rightarrow> string list \<Rightarrow> error + (string \<times> pyval) list" where
  \<comment> \<open>the loop \<^verbatim>\<open>for raw in sources\<close>; \<open>loads\<close> is \<^verbatim>\<open>json.loads\<close>\<close>
  "first_object loads [] = Inr []"
| "first_object loads (raw # rest) =
     (case loads (if raw \<noteq> [] then raw else ''{}'') of
        Inr (PDict d) \<Rightarrow> if d \<noteq> [] then Inr d else first_object loads rest
      | Inr _ \<Rightarrow> first_object loads rest
      | Inl JSONDecodeError \<Rightarrow> first_object loads rest
      | Inl e \<Rightarrow> Inl e)"

definition session_metadata ::
  "(string \<Rightarrow> error + pyval) \<Rightarrow> Room \<Rightarrow> error + (string \<times> pyval) list" where
  "session_metadata loads room = first_object loads (sources room)"

definition nonempty_object :: "(string \<Rightarrow> error + pyval) \<Rightarrow> string \<Rightarrow> bool" where
  \<comment> \<open>the source parses as a non-empty structured object\<close>
  "nonempty_object loads raw =
     (case loads raw of Inr (PDict d) \<Rightarrow> d \<noteq> [] | _ \<Rightarrow> False)"

definition dict_strs :: "(string \<times> pyval) list \<Rightarrow> (string \<rightharpoonup> string)" where
  \<comment> \<open>the string-valued entries of a resolved metadata object\<close>
  "dict_strs d k = (case map_of d k of Some (PStr v) \<Rightarrow> Some v | _ \<Rightarrow> None)"

definition entrypoint :: "(string \<Rightarrow> error + pyval) \<Rightarrow> Room \<Rightarrow> error + Agent" where
  \<comment> \<open>\<^verbatim>\<open>entrypoint\<close>: resolve the metadata, build the state and the agent, start the session,
      which enters the agent\<close>
  "entrypoint loads room =
     (case session_metadata loads room of
        Inl e \<Rightarrow> Inl e
      | Inr d \<Rightarrow>
          let metadata = dict_strs d;
              session_state = SessionState_new
                                (case metadata ''mode'' of Some m \<Rightarrow> m | None \<Rightarrow> ''create'')
          in Inr (on_enter (InterviewAgent session_state metadata)))"

section \<open>Sample sessions\<close>

definition empty_store :: Store where
  \<comment> \<open>a store without documents that commits every write\<close>
  "empty_store = \<lparr>docs = Map.empty, accepts = (\<lambda>path content. True)\<rparr>"

definition session_u1 :: Agent where
  \<comment> \<open>a create-mode session entered with the metadata \<^verbatim>\<open>{"userId": "u1", "mode": "create"}\<close>\<close>
  "session_u1 = on_enter (InterviewAgent (SessionState_new ''create'')
                            [''userId'' \<mapsto> ''u1'', ''mode'' \<mapsto> ''create''])"


definition session_i1 :: Agent where
  \<comment> \<open>a conduct-mode session on the interview \<^verbatim>\<open>i1\<close>\<close>
  "session_i1 = on_enter (InterviewAgent (SessionState_new ''conduct'')
                  [''userId'' \<mapsto> ''u1'', ''interviewId'' \<mapsto> ''i1'', ''mode'' \<mapsto> ''conduct''])"


definition session_conduct_no_id :: Agent where
  \<comment> \<open>a session entered with the metadata \<^verbatim>\<open>{"userId": "u1", "mode": "conduct"}\<close>\<close>
  "session_conduct_no_id = on_enter (InterviewAgent (SessionState_new ''conduct'')
                             [''userId'' \<mapsto> ''u1'', ''mode'' \<mapsto> ''conduct''])"

definition store_i1 :: Store where
  \<comment> \<open>a store that commits every write, where the interview \<^verbatim>\<open>i1\<close> was finalized, with its
      questions, at time 1\<close>
  "store_i1 = \<lparr>docs = [[''interviews'', ''i1''] \<mapsto>
                          [''finalized'' \<mapsto> FBool True,
                           ''createdAt'' \<mapsto> FTimestamp 1,
                           ''questions'' \<mapsto> FStrs [''What is a goroutine?'']]],
                accepts = (\<lambda>path content. True)\<rparr>"

definition env_answering :: "http_result \<Rightarrow> Env" where
  \<comment> \<open>no environment variable set, a transport that meets \<open>r\<close>, a body that is not JSON\<close>
  "env_answering r = \<lparr>getenv = Map.empty, http_post = (\<lambda>endpoint payload timeout. r),
                       json_loads = (\<lambda>body. Inl JSONDecodeError)\<rparr>"

definition example_loads :: "string \<Rightarrow> error + pyval" where
  \<comment> \<open>\<^verbatim>\<open>json.loads\<close> on the texts of the samples: two objects, an empty object and a list;
      every other sample text is not JSON\<close> \<open>
  example_loads raw =
     (if raw = ''{"mode":"conduct","interviewId":"abc"}''
      then Inr (PDict [(''mode'', PStr ''conduct''), (''interviewId'', PStr ''abc'')])
      else if raw = ''{"userId":"u1","mode":"conduct"}''
      then Inr (PDict [(''userId'', PStr ''u1''), (''mode'', PStr ''conduct'')])
      else if raw = ''{}'' then Inr (PDict [])
      else if raw = ''[1]'' then Inr (PList [PInt 1])
      else Inl JSONDecodeError)\<close>

section \<open>Decimal rendering\<close>

lemma digit_cases: "d < 10 \<Longrightarrow> d \<in> {0, 1, 2, 3, 4, 5, 6, 7, 8, 9::nat}"
  by auto







section \<open>Tech-stack parsing\<close>

lemma str_split_not_Nil: "str_split sep s \<noteq> []"
  by (induction s) (auto split: list.splits)

lemma str_split_piece:
  "sep \<notin> set p \<Longrightarrow> str_split sep (p @ sep # s) = p # str_split sep s"
  by (induction p) (auto split: list.splits simp: str_split_not_Nil)

lemma str_split_single: "sep \<notin> set p \<Longrightarrow> str_split sep p = [p]"
  by (induction p) (auto split: list.splits)

lemma str_split_join:
  "\<forall>p\<in>set ps. sep \<notin> set p \<Longrightarrow> ps \<noteq> [] \<Longrightarrow> str_split sep (str_join sep ps) = ps"
  by (induction sep ps rule: str_join.induct) (simp_all add: str_split_single str_split_piece)

lemma rev_dropWhile_takeWhile:
  "xs = rev (dropWhile P (rev xs)) @ rev (takeWhile P (rev xs))"
proof -
  have "rev (rev xs) = rev (takeWhile P (rev xs) @ dropWhile P (rev xs))" by simp
  then show ?thesis by (simp only: rev_append rev_rev_ident)
qed

lemma str_strip_trimmed: "trimmed_of p (str_strip p)"
proof -
  let ?m = "dropWhile is_space p"
  let ?l = "takeWhile is_space p"
  let ?r = "rev (takeWhile is_space (rev ?m))"
  have p: "p = ?l @ ?m" by simp
  have m: "?m = str_strip p @ ?r" unfolding str_strip_def by (rule rev_dropWhile_takeWhile)
  have l: "\<forall>c\<in>set ?l. is_space c" by (auto dest: set_takeWhileD)
  have r: "\<forall>c\<in>set ?r. is_space c" by (auto dest: set_takeWhileD)
  have e: "\<not> is_space (hd (str_strip p)) \<and> \<not> is_space (last (str_strip p))"
    if ne: "str_strip p \<noteq> []"
  proof
    from ne have d: "dropWhile is_space (rev ?m) \<noteq> []" by (simp add: str_strip_def)
    then have "\<not> is_space (hd (dropWhile is_space (rev ?m)))" by (rule hd_dropWhile)
    then show "\<not> is_space (last (str_strip p))"
      using d by (simp add: str_strip_def last_rev)
    have mne: "?m \<noteq> []" by (subst m) (simp add: ne)
    then have "\<not> is_space (hd ?m)" by (rule hd_dropWhile)
    moreover have "hd ?m = hd (str_strip p)" using m ne by (metis hd_append2)
    ultimately show "\<not> is_space (hd (str_strip p))" by simp
  qed
  from p m have "p = ?l @ str_strip p @ ?r" by metis
  with l r e show ?thesis unfolding trimmed_of_def by blast
qed

text \<open>
  C6. \<^verbatim>\<open>store_user_details\<close> normalizes \<^verbatim>\<open>tech_stack\<close> by splitting on commas, trimming
  each entry, dropping the entries that are empty after trimming and keeping the order:
  the comma-joined text of any comma-free entries \<open>ps\<close> yields the non-empty trimmed
  entries of \<open>ps\<close> in order, where trimming removes exactly the leading and trailing
  whitespace; the input \<^verbatim>\<open>"React, Node, , TypeScript "\<close> yields
  \<^verbatim>\<open>["React", "Node", "TypeScript"]\<close>.
\<close>

theorem tech_values_normalizes:
  assumes "\<forall>p\<in>set ps. CHR '','' \<notin> set p"
  shows "tech_values (str_join CHR '','' ps) = filter (\<lambda>t. t \<noteq> []) (map str_strip ps)
    \<and> (\<forall>p. trimmed_of p (str_strip p))
    \<and> tech_values ''React, Node, , TypeScript '' = [''React'', ''Node'', ''TypeScript'']"
proof (intro conjI)
  show "tech_values (str_join CHR '','' ps) = filter (\<lambda>t. t \<noteq> []) (map str_strip ps)"
  proof (cases "ps = []")
    case True
    then show ?thesis by (simp add: tech_values_def str_strip_def)
  next
    case False
    with assms have "str_split CHR '','' (str_join CHR '','' ps) = ps"
      by (simp add: str_split_join)
    then show ?thesis by (simp add: tech_values_def filter_map comp_def)
  qed
  show "\<forall>p. trimmed_of p (str_strip p)" by (simp add: str_strip_trimmed)
  show "tech_values ''React, Node, , TypeScript '' = [''React'', ''Node'', ''TypeScript'']"
    by (simp add: tech_values_def str_strip_def is_space_def)
qed

theorem tech_values_normalizes_witness:
  "list_all (\<lambda>p. CHR '','' \<notin> set p) [''Go'', '' Postgres'', ''  '']
   \<and> tech_values ''Go, Postgres,  '' = [''Go'', ''Postgres'']"
  using tech_values_normalizes [of "[''Go'', '' Postgres'', ''  '']"]
  by (simp add: str_strip_def is_space_def)

section \<open>The sample sessions\<close>

lemma truthy_Some: "truthy x \<Longrightarrow> \<exists>v. x = Some v \<and> v \<noteq> []"
  by (cases x) (simp_all add: truthy_def)

lemma session_u1_state:
  "state session_u1 = (SessionState_new ''create'')\<lparr>user_id := Some ''u1''\<rparr>"
  by (simp add: session_u1_def on_enter_def InterviewAgent_def SessionState_new_def truthy_def)


lemma session_i1_state:
  "state session_i1 =
     (SessionState_new ''conduct'')\<lparr>interview_id := Some ''i1'', user_id := Some ''u1''\<rparr>"
  by (simp add: session_i1_def on_enter_def InterviewAgent_def SessionState_new_def truthy_def)


section \<open>Document paths\<close>

lemma str_split_last_free: "sep \<notin> set (last (str_split sep s))"
  by (induction s) (auto split: list.splits simp: str_split_not_Nil)

lemma document_single:
  "CHR ''/'' \<notin> set i \<Longrightarrow> document [''interviews''] i = Inr [''interviews'', i]"
  by (simp add: document_def str_split_single)

lemma document_last:
  "document [''interviews''] i = Inr p \<Longrightarrow>
     p = ''interviews'' # str_split CHR ''/'' i \<and> last p = last (str_split CHR ''/'' i)
     \<and> CHR ''/'' \<notin> set (last p)"
  by (auto simp: document_def Let_def str_split_not_Nil str_split_last_free split: if_splits)

lemma digit_char_not_slash: "d < 10 \<Longrightarrow> CHR ''/'' \<noteq> digit_char d"
  by (drule digit_cases) (auto simp: digit_char_def)

lemma str_nat_no_slash: "CHR ''/'' \<notin> set (str_nat n)"
proof (induction n rule: str_nat.induct)
  case (1 n)
  show ?case
  proof (cases "n < 10")
    case True
    then show ?thesis by (subst str_nat.simps) (simp add: digit_char_not_slash)
  next
    case False
    with 1 have "CHR ''/'' \<notin> set (str_nat (n div 10))" by simp
    with False show ?thesis by (subst str_nat.simps) (simp add: digit_char_not_slash)
  qed
qed

lemma str_int_no_slash: "CHR ''/'' \<notin> set (str_int n)"
  by (simp add: str_int_def str_nat_no_slash)

lemma answers_document:
  "document [''interviews''] i = Inr p \<Longrightarrow>
     document (p @ [''answers'']) (str_int n) = Inr (answer_path i n)"
  by (auto simp: document_def Let_def answer_path_def str_split_single str_int_no_slash
        split: if_splits)


section \<open>Storing the interview setup\<close>

lemma interview_payload_dom:
  "dom (interview_payload role level ty tech qc uid now) = written_fields"
  by (auto simp: interview_payload_def interview_items_def written_fields_def split: if_splits)

lemma interview_payload_outside:
  "f \<notin> written_fields \<Longrightarrow> interview_payload role level ty tech qc uid now f = None"
  using interview_payload_dom by blast

lemma interview_payload_same:
  "f \<noteq> ''createdAt'' \<Longrightarrow>
     interview_payload role level ty tech qc uid t2 f =
     interview_payload role level ty tech qc uid t1 f"
  by (simp add: interview_payload_def interview_items_def)

lemma set_merge_apply:
  "set_merge old payload f =
     (case payload f of
        Some v \<Rightarrow> Some v
      | None \<Rightarrow> (case old of None \<Rightarrow> None | Some d \<Rightarrow> d f))"
  by (simp add: set_merge_def map_add_def split: option.splits)

lemma interview_items_encodable:
  "list_all (\<lambda>(k, v). encodable v) (interview_items role level ty tech qc uid now) = int64 qc"
  by (simp add: interview_items_def)

lemma answer_items_encodable:
  "list_all (\<lambda>(k, v). encodable v) (answer_items q ans n now) = int64 n"
  by (simp add: answer_items_def)

lemma store_user_details_cases:
  "store_user_details auto_id now (a, db) role level ts ty qc =
     (if \<not> truthy (user_id (state a)) then (Inl IdentityMissing, a, db)
      else case doc_ref a auto_id of
        Inl e \<Rightarrow> (Inl e, a, db)
      | Inr p \<Rightarrow>
          if \<not> int64 qc then (Inl LibraryValueError, a, db)
          else if \<not> accepts db p (interview_payload role level ty (tech_values ts) qc
                                    (the (user_id (state a))) now)
          then (Inl StoreError, a, db)
          else (Inr (PDict [(''interviewId'', PStr (last p))]), stored a p,
                db\<lparr>docs := (docs db)(p \<mapsto> set_merge (docs db p)
                   (interview_payload role level ty (tech_values ts) qc
                      (the (user_id (state a))) now))\<rparr>))"
  by (auto simp: store_user_details_def IdentityMissing_def doc_set_def Let_def stored_def
        interview_items_encodable interview_payload_def truthy_def
        split: sum.splits option.splits)


lemma store_user_details_returns:
  assumes "store_user_details auto_id now (a, db) role level ts ty qc = (Inr v, a1, db1)"
  shows "\<exists>p u. user_id (state a) = Some u \<and> u \<noteq> [] \<and> doc_ref a auto_id = Inr p \<and> int64 qc
      \<and> accepts db p (interview_payload role level ty (tech_values ts) qc u now)
      \<and> v = PDict [(''interviewId'', PStr (last p))] \<and> a1 = stored a p
      \<and> db1 = db\<lparr>docs := (docs db)(p \<mapsto> set_merge (docs db p)
                   (interview_payload role level ty (tech_values ts) qc u now))\<rparr>"
proof -
  from assms have t: "truthy (user_id (state a))"
    by (auto simp: store_user_details_cases IdentityMissing_def split: if_splits)
  then obtain u where u: "user_id (state a) = Some u" "u \<noteq> []" using truthy_Some by blast
  from assms t u show ?thesis
    by (auto simp: store_user_details_cases split: if_splits sum.splits)
qed

lemma stored_state:
  "state (stored a p) = (state a)\<lparr>interview_id := Some (last p), metadata_complete := True\<rparr>"
  by (simp add: stored_def)

lemma doc_ref_stored:
  assumes "doc_ref a auto_id = Inr p" and "last p \<noteq> []"
  shows "doc_ref (stored a p) auto2 = Inr [''interviews'', last p]"
proof -
  from assms(1) have "CHR ''/'' \<notin> set (last p)"
    by (auto simp: doc_ref_def dest: document_last)
  then show ?thesis using assms(2)
    by (simp add: doc_ref_def stored_state document_single)
qed



lemma doc_ref_session_u1: "doc_ref session_u1 ''doc1'' = Inr [''interviews'', ''doc1'']"
  by (simp add: doc_ref_def session_u1_state SessionState_new_def document_def)

lemma doc_ref_session_i1: "doc_ref session_i1 auto_id = Inr [''interviews'', ''i1'']"
  by (simp add: doc_ref_def session_i1_state document_def)


lemma int64_5: "int64 5"
  by (simp add: int64_def)







text \<open>
  C5 (amended). A \<^verbatim>\<open>store_user_details\<close> call that returns merges into the record of its
  document reference: the eight fields it writes take the values of the call, every other
  field that the record held before the call is left unchanged, and no other record
  changes. When the identifier is one path segment, every call made while the session
  holds it writes the same record, and a repeated call with the same arguments, on the
  record as the first call left it, leaves every field but \<^verbatim>\<open>createdAt\<close> as it was;
  \<^verbatim>\<open>createdAt\<close> takes the store's timestamp of the latest write.
\<close>

theorem store_user_details_merge:
  assumes "store_user_details auto_id now (a, db) role level tech_stack interview_type
             question_count = (Inr v, a1, db1)"
  shows "\<exists>p u d1.
      doc_ref a auto_id = Inr p \<and> user_id (state a) = Some u \<and> docs db1 p = Some d1
    \<and> (\<forall>f. d1 f =
          (if f \<in> written_fields
           then interview_payload role level interview_type (tech_values tech_stack)
                  question_count u now f
           else (case docs db p of None \<Rightarrow> None | Some d \<Rightarrow> d f)))
    \<and> (\<forall>f\<in>written_fields.
          interview_payload role level interview_type (tech_values tech_stack)
            question_count u now f \<noteq> None)
    \<and> (\<forall>q. q \<noteq> p \<longrightarrow> docs db1 q = docs db q)
    \<and> interview_id (state a1) = Some (last p) \<and> user_id (state a1) = Some u
    \<and> (\<forall>i a' auto2. p = [''interviews'', i] \<and> i \<noteq> [] \<and> interview_id (state a') = Some i
          \<longrightarrow> doc_ref a' auto2 = Inr p)
    \<and> (\<forall>i a' db' auto2 now2 v2 a2 db2.
          p = [''interviews'', i] \<and> i \<noteq> []
          \<and> interview_id (state a') = Some i \<and> user_id (state a') = Some u
          \<and> docs db' p = Some d1
          \<and> store_user_details auto2 now2 (a', db') role level tech_stack interview_type
              question_count = (Inr v2, a2, db2) \<longrightarrow>
            (\<forall>f. f \<noteq> ''createdAt'' \<longrightarrow> the (docs db2 p) f = d1 f)
          \<and> the (docs db2 p) ''createdAt'' = Some (FTimestamp now2))"
proof -
  from store_user_details_returns [OF assms] obtain p u where
    p: "doc_ref a auto_id = Inr p" and u: "user_id (state a) = Some u" "u \<noteq> []"
    and a1: "a1 = stored a p"
    and db1: "db1 = db\<lparr>docs := (docs db)(p \<mapsto> set_merge (docs db p)
                 (interview_payload role level interview_type (tech_values tech_stack)
                    question_count u now))\<rparr>"
    by blast
  let ?pl = "interview_payload role level interview_type (tech_values tech_stack)
               question_count u"
  define d1 where "d1 = set_merge (docs db p) (?pl now)"
  have s: "docs db1 p = Some d1" by (simp add: db1 d1_def)
  have inside: "\<forall>f\<in>written_fields. ?pl now f \<noteq> None"
    using interview_payload_dom [of role level interview_type "tech_values tech_stack"
        question_count u now] by blast
  have f1: "\<forall>f. d1 f = (if f \<in> written_fields then ?pl now f
                        else (case docs db p of None \<Rightarrow> None | Some d \<Rightarrow> d f))"
    using inside
    by (auto simp: d1_def set_merge_apply interview_payload_outside split: option.splits)
  have f2: "\<forall>q. q \<noteq> p \<longrightarrow> docs db1 q = docs db q" by (simp add: db1)
  have ids: "interview_id (state a1) = Some (last p) \<and> user_id (state a1) = Some u"
    by (simp add: a1 stored_state u)
  from p have free: "CHR ''/'' \<notin> set (last p)"
    by (auto simp: doc_ref_def dest: document_last)
  have same: "doc_ref a' auto2 = Inr p"
    if "p = [''interviews'', i] \<and> i \<noteq> [] \<and> interview_id (state a') = Some i"
    for i a' auto2
    using that free by (simp add: doc_ref_def document_single)
  have again: "(\<forall>f. f \<noteq> ''createdAt'' \<longrightarrow> the (docs db2 p) f = d1 f)
          \<and> the (docs db2 p) ''createdAt'' = Some (FTimestamp now2)"
    if h: "p = [''interviews'', i] \<and> i \<noteq> []
          \<and> interview_id (state a') = Some i \<and> user_id (state a') = Some u
          \<and> docs db' p = Some d1
          \<and> store_user_details auto2 now2 (a', db') role level tech_stack interview_type
              question_count = (Inr v2, a2, db2)" for i a' db' auto2 now2 v2 a2 db2
  proof -
    from h have r2: "store_user_details auto2 now2 (a', db') role level tech_stack
        interview_type question_count = (Inr v2, a2, db2)" by simp
    from h have p2: "doc_ref a' auto2 = Inr p" using same by blast
    from h have u2: "user_id (state a') = Some u" and s2: "docs db' p = Some d1"
      by blast+
    from store_user_details_returns [OF r2] u2 p2
    have db2: "db2 = db'\<lparr>docs := (docs db')(p \<mapsto> set_merge (docs db' p) (?pl now2))\<rparr>"
      by auto
    have "the (docs db2 p) f = d1 f" if "f \<noteq> ''createdAt''" for f
      using interview_payload_same [OF that, of role level interview_type
          "tech_values tech_stack" question_count u now2 now]
      by (simp add: db2 s2 set_merge_apply d1_def split: option.splits)
    moreover have "the (docs db2 p) ''createdAt'' = Some (FTimestamp now2)"
      by (simp add: db2 s2 set_merge_apply interview_payload_def interview_items_def)
    ultimately show ?thesis by blast
  qed
  from p u(1) s f1 inside f2 ids same again show ?thesis by blast
qed

theorem store_user_details_merge_witness:
  "store_user_details ''doc1'' 2 (session_i1, store_i1)
       ''Backend'' ''Senior'' ''Go'' ''technical'' 5
     = (Inr (PDict [(''interviewId'', PStr ''i1'')]),
        stored session_i1 [''interviews'', ''i1''],
        store_i1\<lparr>docs := (docs store_i1)([''interviews'', ''i1''] \<mapsto>
           set_merge (docs store_i1 [''interviews'', ''i1''])
             (interview_payload ''Backend'' ''Senior'' ''technical'' (tech_values ''Go'') 5
                ''u1'' 2))\<rparr>)
   \<and> ''questions'' \<notin> written_fields
   \<and> the (interviews store_i1 ''i1'') ''questions'' = Some (FStrs [''What is a goroutine?''])
   \<and> the (interviews (snd (snd (store_user_details ''doc1'' 2 (session_i1, store_i1)
            ''Backend'' ''Senior'' ''Go'' ''technical'' 5))) ''i1'') ''questions''
       = Some (FStrs [''What is a goroutine?''])
   \<and> the (interviews (snd (snd (store_user_details ''doc1'' 2 (session_i1, store_i1)
            ''Backend'' ''Senior'' ''Go'' ''technical'' 5))) ''i1'') ''role''
       = Some (FStr ''Backend'')"
proof -
  have r: "store_user_details ''doc1'' 2 (session_i1, store_i1)
       ''Backend'' ''Senior'' ''Go'' ''technical'' 5
     = (Inr (PDict [(''interviewId'', PStr ''i1'')]),
        stored session_i1 [''interviews'', ''i1''],
        store_i1\<lparr>docs := (docs store_i1)([''interviews'', ''i1''] \<mapsto>
           set_merge (docs store_i1 [''interviews'', ''i1''])
             (interview_payload ''Backend'' ''Senior'' ''technical'' (tech_values ''Go'') 5
                ''u1'' 2))\<rparr>)"
    by (simp add: store_user_details_cases doc_ref_session_i1 int64_5 session_i1_state
        truthy_def store_i1_def)
  have q: "''questions'' \<notin> written_fields" by (simp add: written_fields_def)
  have o: "the (interviews store_i1 ''i1'') ''questions'' = Some (FStrs [''What is a goroutine?''])"
    by (simp add: interviews_def store_i1_def)
  have role: "''role'' \<in> written_fields" by (simp add: written_fields_def)
  from store_user_details_merge [OF r] obtain d1 where
    d1: "docs (store_i1\<lparr>docs := (docs store_i1)([''interviews'', ''i1''] \<mapsto>
           set_merge (docs store_i1 [''interviews'', ''i1''])
             (interview_payload ''Backend'' ''Senior'' ''technical'' (tech_values ''Go'') 5
                ''u1'' 2))\<rparr>) [''interviews'', ''i1''] = Some d1"
    and f: "\<forall>f. d1 f =
          (if f \<in> written_fields
           then interview_payload ''Backend'' ''Senior'' ''technical'' (tech_values ''Go'') 5
                  ''u1'' 2 f
           else (case docs store_i1 [''interviews'', ''i1''] of
                   None \<Rightarrow> None | Some d \<Rightarrow> d f))"
    by (auto simp: doc_ref_session_i1 session_i1_state)
  from f q have "d1 ''questions'' = Some (FStrs [''What is a goroutine?''])"
    by (simp add: store_i1_def)
  moreover from f role have "d1 ''role'' = Some (FStr ''Backend'')"
    by (simp add: interview_payload_def interview_items_def)
  ultimately show ?thesis using r q o d1 by (simp add: interviews_def)
qed

text \<open>
  The claim C5 as stated fails: repeating a call with the same arguments changes the
  record, since the store stamps \<^verbatim>\<open>createdAt\<close> again.
\<close>

theorem store_user_details_repeat_changes_record:
  "interviews (snd (snd (store_user_details ''doc2'' 2
       (snd (store_user_details ''doc1'' 1 (session_u1, empty_store)
               ''Backend'' ''Senior'' ''Go'' ''technical'' 5))
       ''Backend'' ''Senior'' ''Go'' ''technical'' 5))) ''doc1''
   \<noteq> interviews (snd (snd (store_user_details ''doc1'' 1 (session_u1, empty_store)
               ''Backend'' ''Senior'' ''Go'' ''technical'' 5))) ''doc1''"
proof -
  let ?w1 = "snd (store_user_details ''doc1'' 1 (session_u1, empty_store)
               ''Backend'' ''Senior'' ''Go'' ''technical'' 5)"
  let ?w2 = "snd (store_user_details ''doc2'' 2 ?w1 ''Backend'' ''Senior'' ''Go'' ''technical'' 5)"
  have w1: "?w1 = (stored session_u1 [''interviews'', ''doc1''],
      empty_store\<lparr>docs := (docs empty_store)([''interviews'', ''doc1''] \<mapsto>
        set_merge (docs empty_store [''interviews'', ''doc1''])
          (interview_payload ''Backend'' ''Senior'' ''technical'' (tech_values ''Go'') 5
             ''u1'' 1))\<rparr>)"
    by (simp add: store_user_details_cases doc_ref_session_u1 int64_5 session_u1_state
        truthy_def empty_store_def)
  have c1: "the (interviews (snd ?w1) ''doc1'') ''createdAt'' = Some (FTimestamp 1)"
    by (subst w1) (simp add: interviews_def set_merge_apply interview_payload_def
        interview_items_def)
  have d2: "doc_ref (stored session_u1 [''interviews'', ''doc1'']) ''doc2''
      = Inr [''interviews'', ''doc1'']"
    using doc_ref_stored [OF doc_ref_session_u1, of "''doc2''"] by simp
  have c2: "the (interviews (snd ?w2) ''doc1'') ''createdAt'' = Some (FTimestamp 2)"
    by (subst w1) (simp add: store_user_details_cases d2 int64_5 stored_state
        session_u1_state truthy_def empty_store_def interviews_def set_merge_apply
        interview_payload_def interview_items_def)
  from c1 c2 show ?thesis by auto
qed

section \<open>Saving answers\<close>

lemma save_answer_cases:
  "save_answer now (a, db) question answer sequence =
     (if \<not> truthy (interview_id (state a)) then (Inl NoActiveInterview, a, db)
      else case document [''interviews''] (the (interview_id (state a))) of
        Inl e \<Rightarrow> (Inl e, a, db)
      | Inr p \<Rightarrow>
          if \<not> int64 sequence then (Inl LibraryValueError, a, db)
          else if \<not> accepts db (answer_path (the (interview_id (state a))) sequence)
                      (answer_payload question answer sequence now)
          then (Inl StoreError, a, db)
          else (Inr (PDict [(''status'', PStr ''stored'')]),
                answered a (the (interview_id (state a))) sequence,
                db\<lparr>docs := (docs db)(answer_path (the (interview_id (state a))) sequence \<mapsto>
                   answer_payload question answer sequence now)\<rparr>))"
  by (auto simp: save_answer_def NoActiveInterview_def doc_set_def Let_def answered_def
        answer_items_encodable answer_payload_def answers_document
        split: sum.splits)










section \<open>Requesting the question generation\<close>

lemma rqg_rejected:
  assumes "http_post env (generation_endpoint env)
             (generation_payload a type role level techstack amount userid) 30 = Response status body"
    and "status \<ge> 400"
  shows "request_question_generation env a type role level techstack amount userid =
     (Inl (GenerationRejected status body),
      a\<lparr>log := log a @ [(''INFO'', ''Triggering interview generation via '' @ generation_endpoint env)]\<rparr>)"
  using assms by (simp add: request_question_generation_def GenerationRejected_def Let_def)

lemma rqg_generated_only_if_accepted:
  assumes "questions_generated (state (snd (request_question_generation env a type role level
             techstack amount userid)))"
    and "\<not> questions_generated (state a)"
  shows "\<exists>st body. http_post env (generation_endpoint env)
             (generation_payload a type role level techstack amount userid) 30 = Response st body
           \<and> st < 400"
  using assms
  by (auto simp: request_question_generation_def Let_def
        split: http_result.splits if_splits sum.splits error.splits)

text \<open>
  C3. When the generation endpoint answers with a status of 400 or more,
  \<^verbatim>\<open>request_question_generation\<close> raises the GenerationRejected error, whose message
  carries the status and the response body, and leaves the session state, the
  announcements and the open session as they were. \<^verbatim>\<open>questionsGenerated\<close> turns true only
  in a call that received a response with a status below 400.
\<close>

theorem generation_rejected:
  assumes "http_post env (generation_endpoint env)
             (generation_payload a type role level techstack amount userid) 30 = Response status body"
    and "status \<ge> 400"
  shows "fst (request_question_generation env a type role level techstack amount userid)
           = Inl (GenerationRejected status body)
     \<and> GenerationRejected status body
           = RuntimeError (''Interview generation failed ('' @ str_int status @ ''): '' @ body)
     \<and> state (snd (request_question_generation env a type role level techstack amount userid))
           = state a
     \<and> said (snd (request_question_generation env a type role level techstack amount userid))
           = said a
     \<and> closed (snd (request_question_generation env a type role level techstack amount userid))
           = closed a
     \<and> (\<forall>env' a' type' role' level' techstack' amount' userid'.
           questions_generated (state (snd (request_question_generation env' a' type' role' level'
              techstack' amount' userid')))
           \<and> \<not> questions_generated (state a') \<longrightarrow>
           (\<exists>st b. http_post env' (generation_endpoint env')
                (generation_payload a' type' role' level' techstack' amount' userid') 30
                = Response st b \<and> st < 400))"
  using rqg_generated_only_if_accepted
  by (simp add: rqg_rejected [OF assms] GenerationRejected_def)

lemma session_u1_effects: "said session_u1 = [] \<and> \<not> closed session_u1"
  by (simp add: session_u1_def on_enter_def InterviewAgent_def SessionState_new_def truthy_def Let_def)

theorem generation_rejected_witness:
  "http_post (env_answering (Response 500 ''boom''))
       (generation_endpoint (env_answering (Response 500 ''boom'')))
       (generation_payload session_u1 ''technical'' ''Backend'' ''Senior'' ''Go'' 5 ''u1'') 30
     = Response 500 ''boom''
   \<and> (500::int) \<ge> 400
   \<and> fst (request_question_generation (env_answering (Response 500 ''boom'')) session_u1
             ''technical'' ''Backend'' ''Senior'' ''Go'' 5 ''u1'')
       = Inl (RuntimeError ''Interview generation failed (500): boom'')
   \<and> \<not> questions_generated (state (snd (request_question_generation
             (env_answering (Response 500 ''boom'')) session_u1
             ''technical'' ''Backend'' ''Senior'' ''Go'' 5 ''u1'')))
   \<and> said (snd (request_question_generation (env_answering (Response 500 ''boom'')) session_u1
             ''technical'' ''Backend'' ''Senior'' ''Go'' 5 ''u1'')) = []
   \<and> \<not> closed (snd (request_question_generation (env_answering (Response 500 ''boom''))
             session_u1 ''technical'' ''Backend'' ''Senior'' ''Go'' 5 ''u1''))"
proof -
  have h: "http_post (env_answering (Response 500 ''boom''))
       (generation_endpoint (env_answering (Response 500 ''boom'')))
       (generation_payload session_u1 ''technical'' ''Backend'' ''Senior'' ''Go'' 5 ''u1'') 30
     = Response 500 ''boom''"
    by (simp add: env_answering_def)
  have g: "(500::int) \<ge> 400" by simp
  have s: "str_int 500 = ''500''" by (simp add: str_int_def str_nat.simps digit_char_def)
  from generation_rejected [OF h g] show ?thesis
    using h session_u1_effects
    by (simp add: s session_u1_state SessionState_new_def)
qed

text \<open>
  C4. The claim asks for a timeout of the outbound call to surface as the
  GenerationUnreachable error, as a connection failure does. The source catches
  \<^verbatim>\<open>aiohttp.ClientError\<close> only: a connection failure is wrapped, the timeout leaves the
  tool as the \<^verbatim>\<open>TimeoutError\<close> it is; \<^verbatim>\<open>questionsGenerated\<close> stays false in both cases.
\<close>

theorem generation_timeout_unclassified:
  "fst (request_question_generation (env_answering Timeout) session_u1
          ''technical'' ''Backend'' ''Senior'' ''Go'' 5 ''u1'') = Inl TimeoutError
   \<and> TimeoutError \<noteq> GenerationUnreachable
   \<and> fst (request_question_generation (env_answering ClientError) session_u1
          ''technical'' ''Backend'' ''Senior'' ''Go'' 5 ''u1'') = Inl GenerationUnreachable
   \<and> \<not> questions_generated (state (snd (request_question_generation (env_answering Timeout)
          session_u1 ''technical'' ''Backend'' ''Senior'' ''Go'' 5 ''u1'')))"
  by (simp add: request_question_generation_def env_answering_def GenerationUnreachable_def
      Let_def session_u1_state SessionState_new_def)

section \<open>Entering a session\<close>

lemma on_enter_missing_id:
  assumes "(case room_metadata a ''mode'' of Some m \<Rightarrow> m | None \<Rightarrow> mode (state a)) = ''conduct''"
    and "\<not> truthy (room_metadata a ''interviewId'')"
  shows "log (on_enter a) = log a @ [(''ERROR'', ''Missing interview id in room metadata; ending session'')]
     \<and> replies (on_enter a) = replies a \<and> said (on_enter a) = said a
     \<and> closed (on_enter a) = closed a"
  using assms by (simp add: on_enter_def Let_def)

lemma entrypoint_conduct_no_id: \<open>
  entrypoint example_loads
    \<lparr>metadata = ''{"userId":"u1","mode":"conduct"}'', remote_participants = []\<rparr>
  = Inr session_conduct_no_id\<close>
proof -
  have \<open>session_metadata example_loads
           \<lparr>metadata = ''{"userId":"u1","mode":"conduct"}'', remote_participants = []\<rparr>
        = Inr [(''userId'', PStr ''u1''), (''mode'', PStr ''conduct'')]\<close>
    by (simp add: session_metadata_def sources_def getattr_participants_def example_loads_def)
  moreover have \<open>dict_strs [(''userId'', PStr ''u1''), (''mode'', PStr ''conduct'')]
        = [''userId'' \<mapsto> ''u1'', ''mode'' \<mapsto> ''conduct'']\<close>
    by (auto simp: fun_eq_iff dict_strs_def)
  ultimately show ?thesis
    by (simp add: entrypoint_def session_conduct_no_id_def)
qed

text \<open>
  C2. The claim asks that a conduct-mode session without an interview id aborts: the
  failure is logged, no reply is generated and no tool is callable afterwards. In the
  source the failure is logged and no reply is generated, but the session is not closed
  and nothing bars the tools: in the session of \<open>entrypoint_conduct_no_id\<close>, on the
  metadata \<^verbatim>\<open>{"userId":"u1","mode":"conduct"}\<close>,
  \<^verbatim>\<open>store_user_details\<close> then runs, creates an interview record and gives the session its
  id.
\<close>

theorem conduct_without_id_session_stays_open:
  "mode (state session_conduct_no_id) = ''conduct''
   \<and> interview_id (state session_conduct_no_id) = None
   \<and> log session_conduct_no_id
       = [(''ERROR'', ''Missing interview id in room metadata; ending session'')]
   \<and> replies session_conduct_no_id = 0
   \<and> \<not> closed session_conduct_no_id
   \<and> fst (store_user_details ''doc1'' 1 (session_conduct_no_id, empty_store)
            ''Backend'' ''Senior'' ''Go'' ''technical'' 5)
       = Inr (PDict [(''interviewId'', PStr ''doc1'')])
   \<and> interview_id (state (fst (snd (store_user_details ''doc1'' 1
            (session_conduct_no_id, empty_store) ''Backend'' ''Senior'' ''Go'' ''technical'' 5))))
       = Some ''doc1''
   \<and> interviews (snd (snd (store_user_details ''doc1'' 1 (session_conduct_no_id, empty_store)
            ''Backend'' ''Senior'' ''Go'' ''technical'' 5))) ''doc1'' \<noteq> None"
  by (simp add: session_conduct_no_id_def on_enter_def InterviewAgent_def SessionState_new_def
      truthy_def Let_def store_user_details_def doc_ref_def document_def doc_set_def
      interview_items_def int64_def interviews_def empty_store_def)

section \<open>Sequences of tool calls\<close>

lemma store_user_details_state:
  "state (fst (snd (store_user_details auto_id now (a, db) role level ts ty qc))) = state a
   \<or> (\<exists>p. doc_ref a auto_id = Inr p
         \<and> state (fst (snd (store_user_details auto_id now (a, db) role level ts ty qc)))
             = (state a)\<lparr>interview_id := Some (last p), metadata_complete := True\<rparr>)"
  by (auto simp: store_user_details_cases stored_state split: sum.splits)

lemma save_answer_state:
  "state (fst (snd (save_answer now (a, db) q ans n))) = state a"
  by (auto simp: save_answer_cases answered_def split: sum.splits)

lemma rqg_state:
  "metadata_complete (state (snd (request_question_generation env a ty role level ts n u)))
     = metadata_complete (state a)
   \<and> interview_id (state (snd (request_question_generation env a ty role level ts n u)))
     = interview_id (state a)"
  by (simp add: request_question_generation_def Let_def
        split: http_result.splits sum.splits error.splits)

lemma rqg_flag:
  "questions_generated (state (snd (request_question_generation env a ty role level ts n u)))
     \<longleftrightarrow> questions_generated (state a)
       \<or> (\<exists>st body. http_post env (generation_endpoint env)
              (generation_payload a ty role level ts n u) 30 = Response st body
            \<and> st < 400 \<and> parsed env body)"
  by (auto simp: request_question_generation_def Let_def parsed_def
        split: http_result.splits sum.splits error.splits)

lemma call_tool_flag:
  assumes "\<forall>env ty role level ts n u. c \<noteq> RequestQuestionGeneration env ty role level ts n u"
  shows "questions_generated (state (fst (snd (call_tool c v))))
           = questions_generated (state (fst v))"
proof (cases v)
  case (Pair a db)
  show ?thesis
  proof (cases c)
    case (StoreUserDetails auto_id now role level ts ty qc)
    then show ?thesis
      using store_user_details_state [of auto_id now a db role level ts ty qc]
      by (auto simp: Pair)
  next
    case (RequestQuestionGeneration env ty role level ts n u)
    with assms show ?thesis by blast
  next
    case (SaveAnswer now q ans n)
    then show ?thesis by (simp add: Pair save_answer_state)
  qed
qed

lemma call_tool_keeps:
  assumes "session_invariant w"
    and "case c of RequestQuestionGeneration env ty role level ts n u \<Rightarrow> setup_done w | _ \<Rightarrow> True"
  shows "session_invariant (snd (call_tool c w))"
proof (cases w)
  case (Pair a db)
  show ?thesis
  proof (cases c)
    case (StoreUserDetails auto_id now role level ts ty qc)
    let ?s = "state (fst (snd (store_user_details auto_id now (a, db) role level ts ty qc)))"
    from store_user_details_state [of auto_id now a db role level ts ty qc]
    consider "?s = state a"
      | p where "doc_ref a auto_id = Inr p"
          "?s = (state a)\<lparr>interview_id := Some (last p), metadata_complete := True\<rparr>"
      by blast
    then show ?thesis
    proof cases
      case 1
      with assms(1) show ?thesis
        by (simp add: session_invariant_def setup_done_def StoreUserDetails Pair)
    next
      case 2
      from 2(1) have free: "CHR ''/'' \<notin> set (last p)"
        by (auto simp: doc_ref_def dest: document_last)
      have keep: "truthy (Some (last p))" if q: "questions_generated (state a)"
      proof -
        from assms(1) q have "metadata_complete (state a)" "truthy (interview_id (state a))"
          by (simp_all add: session_invariant_def setup_done_def Pair)
        then obtain i where i: "interview_id (state a) = Some i" "i \<noteq> []"
          using truthy_Some by blast
        with assms(1) \<open>metadata_complete (state a)\<close> have "CHR ''/'' \<notin> set i"
          by (simp add: session_invariant_def Pair)
        with i 2(1) have "last p = i"
          by (auto simp: doc_ref_def document_single)
        with i show ?thesis by (simp add: truthy_def)
      qed
      show ?thesis
        using 2(2) free keep
        by (auto simp: session_invariant_def setup_done_def StoreUserDetails Pair)
    qed
  next
    case (RequestQuestionGeneration env ty role level ts n u)
    with assms(2) have "setup_done w" by simp
    then show ?thesis
      using rqg_state [of env a ty role level ts n u] assms(1)
      by (simp add: session_invariant_def setup_done_def RequestQuestionGeneration Pair
            case_prod_beta)
  next
    case (SaveAnswer now q ans n)
    then show ?thesis
      using assms(1)
      by (simp add: session_invariant_def setup_done_def Pair save_answer_state)
  qed
qed

lemma run_keeps:
  "session_invariant w \<Longrightarrow> generation_after_setup cs w \<Longrightarrow> session_invariant (run cs w)"
proof (induction cs arbitrary: w)
  case Nil
  then show ?case by simp
next
  case (Cons c cs)
  from Cons.prems have "session_invariant (snd (call_tool c w))"
    by (intro call_tool_keeps) (auto split: tool_call.splits)
  moreover from Cons.prems have "generation_after_setup cs (snd (call_tool c w))" by simp
  ultimately show ?case using Cons.IH by simp
qed

text \<open>
  C1 (amended). In a session that starts with neither flag set, over every sequence of
  tool calls in which each \<^verbatim>\<open>request_question_generation\<close> is called once
  \<^verbatim>\<open>metadataComplete\<close> is true and \<^verbatim>\<open>interviewId\<close> is set, \<^verbatim>\<open>questionsGenerated\<close> is true
  only if \<^verbatim>\<open>metadataComplete\<close> is true and \<^verbatim>\<open>interviewId\<close> is set. The tool itself checks
  neither: whatever they are, a \<^verbatim>\<open>request_question_generation\<close> call leaves
  \<^verbatim>\<open>questionsGenerated\<close> true exactly when it was true before or the call is answered
  with a status below 400 and a body that is empty or on which \<^verbatim>\<open>json.loads\<close> returns or
  raises \<^verbatim>\<open>JSONDecodeError\<close>. No other tool changes \<^verbatim>\<open>questionsGenerated\<close>.
\<close>

theorem questions_generated_after_setup:
  assumes "\<not> metadata_complete (state (fst w))"
    and "\<not> questions_generated (state (fst w))"
    and "generation_after_setup cs w"
  shows "(questions_generated (state (fst (run cs w))) \<longrightarrow> setup_done (run cs w))
     \<and> (\<forall>env a ty role level ts n u.
           questions_generated
             (state (snd (request_question_generation env a ty role level ts n u)))
           \<longleftrightarrow> questions_generated (state a)
               \<or> (\<exists>st body. http_post env (generation_endpoint env)
                      (generation_payload a ty role level ts n u) 30 = Response st body
                    \<and> st < 400 \<and> parsed env body))
     \<and> (\<forall>c v. (\<forall>env ty role level ts n u.
                  c \<noteq> RequestQuestionGeneration env ty role level ts n u) \<longrightarrow>
           questions_generated (state (fst (snd (call_tool c v))))
             = questions_generated (state (fst v)))"
proof (intro conjI)
  from assms(1,2) have "session_invariant w" by (simp add: session_invariant_def)
  from run_keeps [OF this assms(3)]
  show "questions_generated (state (fst (run cs w))) \<longrightarrow> setup_done (run cs w)"
    by (simp add: session_invariant_def)
  show "\<forall>env a ty role level ts n u.
           questions_generated
             (state (snd (request_question_generation env a ty role level ts n u)))
           \<longleftrightarrow> questions_generated (state a)
               \<or> (\<exists>st body. http_post env (generation_endpoint env)
                      (generation_payload a ty role level ts n u) 30 = Response st body
                    \<and> st < 400 \<and> parsed env body)"
    by (intro allI) (rule rqg_flag)
  show "\<forall>c v. (\<forall>env ty role level ts n u.
                  c \<noteq> RequestQuestionGeneration env ty role level ts n u) \<longrightarrow>
           questions_generated (state (fst (snd (call_tool c v))))
             = questions_generated (state (fst v))"
    by (intro allI impI) (rule call_tool_flag)
qed

text \<open>
  The claim C1 as stated fails: in a fresh create-mode session a single
  \<^verbatim>\<open>request_question_generation\<close> answered with status 200 sets \<^verbatim>\<open>questionsGenerated\<close>
  while \<^verbatim>\<open>metadataComplete\<close> is false and \<^verbatim>\<open>interviewId\<close> is unset.
\<close>

theorem questions_generated_without_setup:
  "questions_generated (state (fst (run
      [RequestQuestionGeneration (env_answering (Response 200 [])) ''technical'' ''Backend''
         ''Senior'' ''Go'' 5 []] (session_u1, empty_store))))
   \<and> \<not> metadata_complete (state (fst (run
      [RequestQuestionGeneration (env_answering (Response 200 [])) ''technical'' ''Backend''
         ''Senior'' ''Go'' 5 []] (session_u1, empty_store))))
   \<and> interview_id (state (fst (run
      [RequestQuestionGeneration (env_answering (Response 200 [])) ''technical'' ''Backend''
         ''Senior'' ''Go'' 5 []] (session_u1, empty_store)))) = None"
  by (simp add: request_question_generation_def env_answering_def Let_def session_u1_state
      SessionState_new_def)

theorem questions_generated_after_setup_witness:
  "\<not> metadata_complete (state (fst (session_u1, empty_store)))
   \<and> \<not> questions_generated (state (fst (session_u1, empty_store)))
   \<and> generation_after_setup
       [StoreUserDetails ''doc1'' 1 ''Backend Engineer'' ''Senior'' ''Go, Postgres'' ''technical'' 5,
        RequestQuestionGeneration (env_answering (Response 200 [])) ''technical''
          ''Backend Engineer'' ''Senior'' ''Go, Postgres'' 5 ''u1'']
       (session_u1, empty_store)
   \<and> questions_generated (state (fst (run
       [StoreUserDetails ''doc1'' 1 ''Backend Engineer'' ''Senior'' ''Go, Postgres'' ''technical'' 5,
        RequestQuestionGeneration (env_answering (Response 200 [])) ''technical''
          ''Backend Engineer'' ''Senior'' ''Go, Postgres'' 5 ''u1'']
       (session_u1, empty_store))))
   \<and> setup_done (run
       [StoreUserDetails ''doc1'' 1 ''Backend Engineer'' ''Senior'' ''Go, Postgres'' ''technical'' 5,
        RequestQuestionGeneration (env_answering (Response 200 [])) ''technical''
          ''Backend Engineer'' ''Senior'' ''Go, Postgres'' 5 ''u1'']
       (session_u1, empty_store))"
proof -
  let ?cs = "[StoreUserDetails ''doc1'' 1 ''Backend Engineer'' ''Senior'' ''Go, Postgres'' ''technical'' 5,
        RequestQuestionGeneration (env_answering (Response 200 [])) ''technical''
          ''Backend Engineer'' ''Senior'' ''Go, Postgres'' 5 ''u1'']"
  have m: "\<not> metadata_complete (state (fst (session_u1, empty_store)))"
    by (simp add: session_u1_state SessionState_new_def)
  have n: "\<not> questions_generated (state (fst (session_u1, empty_store)))"
    by (simp add: session_u1_state SessionState_new_def)
  have s: "store_user_details ''doc1'' 1 (session_u1, empty_store)
             ''Backend Engineer'' ''Senior'' ''Go, Postgres'' ''technical'' 5
      = (Inr (PDict [(''interviewId'', PStr ''doc1'')]),
         stored session_u1 [''interviews'', ''doc1''],
         snd (snd (store_user_details ''doc1'' 1 (session_u1, empty_store)
             ''Backend Engineer'' ''Senior'' ''Go, Postgres'' ''technical'' 5)))"
    by (simp add: store_user_details_cases doc_ref_session_u1 int64_5 session_u1_state
        truthy_def empty_store_def)
  have g: "generation_after_setup ?cs (session_u1, empty_store)"
    unfolding generation_after_setup.simps call_tool.simps tool_call.case
    by (subst s) (simp add: setup_done_def stored_state truthy_def)
  have q: "questions_generated (state (fst (run ?cs (session_u1, empty_store))))"
    by (simp add: request_question_generation_def env_answering_def Let_def)
  from questions_generated_after_setup [OF m n g] q m n g show ?thesis by simp
qed

section \<open>Resolving the metadata\<close>

lemma sources_room_only:
  "sources room = (if metadata room \<noteq> [] then [metadata room] else [])"
  by (simp add: sources_def getattr_participants_def)

lemma first_object_raises:
  assumes "raw \<noteq> []" and "loads raw = Inl e" and "e \<noteq> JSONDecodeError"
  shows "first_object loads (raw # rest) = Inl e"
  using assms by (cases e) simp_all

lemma first_object_skips:
  assumes "raw \<noteq> []" and "loads raw = Inl JSONDecodeError"
  shows "first_object loads (raw # rest) = first_object loads rest"
  using assms by simp

lemma first_object_takes:
  assumes "raw \<noteq> []" and "loads raw = Inr (PDict d)" and "d \<noteq> []"
  shows "first_object loads (raw # rest) = Inr d"
  using assms by simp

text \<open>
  C7. The claim asks the resolver to go from the room's context to each participant's
  context in order and to return the first source that parses as a non-empty object.
  The loop over the sources does that on the list it is given, as
  \<open>first_object_skips\<close> and \<open>first_object_takes\<close> say, but the list never holds a
  participant's context: the source reads the participants from an attribute that the
  room does not have. For a room whose context is \<^verbatim>\<open>not json\<close> and whose participant has
  the context \<^verbatim>\<open>{"mode":"conduct","interviewId":"abc"}\<close>, the only source is the room's and
  the resolver returns the empty object. A source on which \<^verbatim>\<open>json.loads\<close> raises another
  exception than \<^verbatim>\<open>JSONDecodeError\<close> is not skipped either (\<open>first_object_raises\<close>).
\<close>

theorem participant_metadata_never_read: \<open>
  example_loads ''not json'' = Inl JSONDecodeError
  \<and> example_loads ''{"mode":"conduct","interviewId":"abc"}''
      = Inr (PDict [(''mode'', PStr ''conduct''), (''interviewId'', PStr ''abc'')])
  \<and> first_object example_loads [''not json'', ''{"mode":"conduct","interviewId":"abc"}'']
      = Inr [(''mode'', PStr ''conduct''), (''interviewId'', PStr ''abc'')]
  \<and> sources \<lparr>metadata = ''not json'',
               remote_participants =
                 [(''candidate'',
                   \<lparr>participant_metadata = ''{"mode":"conduct","interviewId":"abc"}''\<rparr>)]\<rparr>
      = [''not json'']
  \<and> session_metadata example_loads
        \<lparr>metadata = ''not json'',
         remote_participants =
           [(''candidate'',
             \<lparr>participant_metadata = ''{"mode":"conduct","interviewId":"abc"}''\<rparr>)]\<rparr>
      = Inr []\<close>
  by (simp add: example_loads_def session_metadata_def sources_def getattr_participants_def)

end
